theory Spec2Isabelle
  imports Complex_Main
begin

section \<open>Numbers: reals, infinities and NaN\<close>

text \<open>
  The fitter of \<^verbatim>\<open>skg/gauss.py\<close> works on double-precision arrays. The embedding
  idealises a finite double as a \<open>real\<close> (no rounding, no overflow or underflow) and keeps the three
  special values that decide what the code returns when a division or a square root has
  no real result: \<open>PInf\<close>, \<open>NInf\<close> and \<open>NaN\<close>. The operations below follow IEEE 754
  as numpy applies it: they never raise, an invalid operation gives \<open>NaN\<close>, a non-zero
  value divided by zero gives an infinity. Zero is unsigned here (it stands for \<open>+0.0\<close>).
\<close>

datatype npfloat = Fin real | PInf | NInf | NaN

fun np_neg :: "npfloat \<Rightarrow> npfloat" where
  "np_neg (Fin a) = Fin (- a)"
| "np_neg PInf = NInf"
| "np_neg NInf = PInf"
| "np_neg NaN = NaN"

fun np_add :: "npfloat \<Rightarrow> npfloat \<Rightarrow> npfloat" where
  "np_add (Fin a) (Fin b) = Fin (a + b)"
| "np_add NaN _ = NaN"
| "np_add _ NaN = NaN"
| "np_add PInf NInf = NaN"
| "np_add NInf PInf = NaN"
| "np_add PInf _ = PInf"
| "np_add _ PInf = PInf"
| "np_add NInf _ = NInf"
| "np_add _ NInf = NInf"

definition np_sub :: "npfloat \<Rightarrow> npfloat \<Rightarrow> npfloat" where
  "np_sub a b = np_add a (np_neg b)"

text \<open>An infinity scaled by a finite factor \<open>s\<close>: the sign of \<open>s\<close> decides, zero is invalid.\<close>

fun np_scale_inf :: "real \<Rightarrow> npfloat" where
  "np_scale_inf s = (if s = 0 then NaN else if 0 < s then PInf else NInf)"

fun np_mul :: "npfloat \<Rightarrow> npfloat \<Rightarrow> npfloat" where
  "np_mul (Fin a) (Fin b) = Fin (a * b)"
| "np_mul NaN _ = NaN"
| "np_mul _ NaN = NaN"
| "np_mul PInf (Fin b) = np_scale_inf b"
| "np_mul NInf (Fin b) = np_scale_inf (- b)"
| "np_mul (Fin a) PInf = np_scale_inf a"
| "np_mul (Fin a) NInf = np_scale_inf (- a)"
| "np_mul PInf PInf = PInf"
| "np_mul NInf NInf = PInf"
| "np_mul PInf NInf = NInf"
| "np_mul NInf PInf = NInf"

fun np_div :: "npfloat \<Rightarrow> npfloat \<Rightarrow> npfloat" where
  "np_div (Fin a) (Fin b) = (if b = 0 then np_scale_inf a else Fin (a / b))"
| "np_div NaN _ = NaN"
| "np_div _ NaN = NaN"
| "np_div (Fin a) PInf = Fin 0"
| "np_div (Fin a) NInf = Fin 0"
| "np_div PInf (Fin b) = (if 0 \<le> b then PInf else NInf)"
| "np_div NInf (Fin b) = (if 0 \<le> b then NInf else PInf)"
| "np_div PInf PInf = NaN"
| "np_div PInf NInf = NaN"
| "np_div NInf PInf = NaN"
| "np_div NInf NInf = NaN"

text \<open>\<^verbatim>\<open>v**2\<close> on an array is the elementwise product of \<open>v\<close> with itself.\<close>

definition np_square :: "npfloat \<Rightarrow> npfloat" where
  "np_square a = np_mul a a"

text \<open>
  \<^verbatim>\<open>numpy.sqrt\<close> of a negative double is \<open>NaN\<close> (with a warning, not an exception); it
  never returns a complex number for a real argument.
\<close>

fun np_sqrt :: "npfloat \<Rightarrow> npfloat" where
  "np_sqrt (Fin a) = (if a < 0 then NaN else Fin (sqrt a))"
| "np_sqrt PInf = PInf"
| "np_sqrt NInf = NaN"
| "np_sqrt NaN = NaN"

fun np_exp :: "npfloat \<Rightarrow> npfloat" where
  "np_exp (Fin a) = Fin (exp a)"
| "np_exp PInf = PInf"
| "np_exp NInf = Fin 0"
| "np_exp NaN = NaN"

text \<open>
  \<^verbatim>\<open>u.dot(v)\<close> for two one-dimensional arrays of the same length (the only use in the
  source: both operands have the length of \<open>x\<close>).
\<close>

fun np_dot :: "npfloat list \<Rightarrow> npfloat list \<Rightarrow> npfloat" where
  "np_dot (a # as) (b # bs) = np_add (np_mul a b) (np_dot as bs)"
| "np_dot _ _ = Fin 0"

section \<open>Array helpers of numpy\<close>

text \<open>\<^verbatim>\<open>diff(x)\<close> is \<^verbatim>\<open>x[1:] - x[:-1]\<close>.\<close>

definition diff :: "real list \<Rightarrow> real list" where
  "diff xs = map2 (\<lambda>a b. a - b) (tl xs) (butlast xs)"

text \<open>\<^verbatim>\<open>cumsum\<close> accumulates from the left, one element at a time.\<close>

fun cumsum_from :: "real \<Rightarrow> real list \<Rightarrow> real list" where
  "cumsum_from acc [] = []"
| "cumsum_from acc (v # vs) = (acc + v) # cumsum_from (acc + v) vs"

definition cumsum :: "real list \<Rightarrow> real list" where
  "cumsum vs = cumsum_from 0 vs"

section \<open>Errors\<close>

text \<open>
  The exceptions that can leave \<open>gauss_fit\<close>: the preprocessor's rejection of
  ill-shaped input, and the \<^verbatim>\<open>ValueError\<close> of \<^verbatim>\<open>scipy.linalg.lstsq\<close> for operands whose
  row counts differ. The source raises nothing of its own.
\<close>

datatype error = ShapeMismatchError | ValueError

section \<open>The preprocessor\<close>

text \<open>
  Modelled from the spec: \<^verbatim>\<open>preprocess\<close> is imported from \<^verbatim>\<open>skg/_util.py\<close>, which is not
  among the sources. The specification describes it as taking two equal-length numeric
  sequences, flattening them, and optionally sorting both by \<open>x\<close> while keeping \<open>y\<close>
  paired, producing two sequences of equal length at least 2; a length mismatch or fewer
  than two points is a \<open>ShapeMismatchError\<close>. The docstring of \<open>gauss_fit\<close> adds that
  with \<^verbatim>\<open>sorted=False\<close> the data is sorted into increasing order of \<open>x\<close>. The inputs are
  flat lists here, and the results are arrays of doubles (the specification admits any
  numeric element type convertible to double precision), so that \<open>a1\<close>, which the
  source allocates with the element type of \<open>x * y\<close>, holds doubles as well.
\<close>

definition preprocess :: "real list \<Rightarrow> real list \<Rightarrow> bool \<Rightarrow> error + (real list \<times> real list)" where
  "preprocess x y is_sorted =
     (if length x \<noteq> length y \<or> length x < 2 then Inl ShapeMismatchError
      else if is_sorted then Inr (x, y)
      else let ps = sort_key fst (zip x y) in Inr (map fst ps, map snd ps))"

section \<open>The least-squares solver\<close>

text \<open>
  \<^verbatim>\<open>scipy.linalg.lstsq(a1, b1)\<close> returns the least-squares solution of minimum norm of
  \<open>a1 z = b1\<close>. For the two-column matrix of the fitter it is given in closed form from
  the entries of the normal equations: Cramer's rule when the Gram determinant is not
  zero, the zero vector for the zero matrix, and \<open>a1\<^sup>T b1 / \<parallel>a1\<parallel>\<^sup>2\<close> (the pseudo-inverse of a
  matrix of rank one) otherwise. A row of the system is \<open>((u, v), t)\<close>: the two matrix
  entries and the entry of the right-hand side.
\<close>

definition gram_uu :: "((real \<times> real) \<times> real) list \<Rightarrow> real" where
  "gram_uu rows = (\<Sum>r\<leftarrow>rows. fst (fst r) * fst (fst r))"

definition gram_uv :: "((real \<times> real) \<times> real) list \<Rightarrow> real" where
  "gram_uv rows = (\<Sum>r\<leftarrow>rows. fst (fst r) * snd (fst r))"

definition gram_vv :: "((real \<times> real) \<times> real) list \<Rightarrow> real" where
  "gram_vv rows = (\<Sum>r\<leftarrow>rows. snd (fst r) * snd (fst r))"

definition rhs_u :: "((real \<times> real) \<times> real) list \<Rightarrow> real" where
  "rhs_u rows = (\<Sum>r\<leftarrow>rows. fst (fst r) * snd r)"

definition rhs_v :: "((real \<times> real) \<times> real) list \<Rightarrow> real" where
  "rhs_v rows = (\<Sum>r\<leftarrow>rows. snd (fst r) * snd r)"

definition solve_rows :: "((real \<times> real) \<times> real) list \<Rightarrow> real \<times> real" where
  "solve_rows rows =
     (let suu = gram_uu rows; suv = gram_uv rows; svv = gram_vv rows;
          su = rhs_u rows; sv = rhs_v rows;
          det = suu * svv - suv * suv
      in if det \<noteq> 0 then ((svv * su - suv * sv) / det, (suu * sv - suv * su) / det)
         else if suu + svv = 0 then (0, 0)
         else (su / (suu + svv), sv / (suu + svv)))"

definition lstsq :: "(real \<times> real) list \<Rightarrow> real list \<Rightarrow> error + (real \<times> real)" where
  "lstsq a b = (if length a \<noteq> length b then Inl ValueError else Inr (solve_rows (zip a b)))"



section \<open>The fitter\<close>

text \<open>
  \<^verbatim>\<open>(v[1:] + v[:-1]) * d\<close>: the trapezoid areas between neighbouring samples of \<open>v\<close>,
  for the half-widths \<open>d\<close>.
\<close>

definition integrand_steps :: "real list \<Rightarrow> real list \<Rightarrow> real list" where
  "integrand_steps v d = map2 (\<lambda>s h. s * h) (map2 (\<lambda>p q. p + q) (tl v) (butlast v)) d"

text \<open>
  The matrix \<open>a1\<close>, a list of its rows:
  \<^verbatim>\<open>d = 0.5 * diff(x); xy = x * y; a1[0, :] = 0;
  a1[1:, 0] = cumsum((y[1:] + y[:-1]) * d); a1[1:, 1] = cumsum((xy[1:] + xy[:-1]) * d)\<close>.
\<close>

definition design_matrix :: "real list \<Rightarrow> real list \<Rightarrow> (real \<times> real) list" where
  "design_matrix x y =
     (let d = map (\<lambda>h. 0.5 * h) (diff x);
          xy = map2 (\<lambda>p q. p * q) x y
      in (0, 0) # zip (cumsum (integrand_steps y d)) (cumsum (integrand_steps xy d)))"

text \<open>The right-hand side \<^verbatim>\<open>b1 = y - y[0]\<close>.\<close>

definition target :: "real list \<Rightarrow> real list" where
  "target y = map (\<lambda>v. v - hd y) y"

text \<open>\<^verbatim>\<open>a2 = exp(-0.5 * ((x - mu) / sigma)**2)\<close>, with \<open>mu\<close> and \<open>sigma\<close> as computed.\<close>

definition trial_curve :: "real list \<Rightarrow> npfloat \<Rightarrow> npfloat \<Rightarrow> npfloat list" where
  "trial_curve x mu sigma =
     map (\<lambda>xi. np_exp (np_mul (Fin (- 0.5)) (np_square (np_div (np_sub (Fin xi) mu) sigma)))) x"

text \<open>
  \<^verbatim>\<open>gauss_fit(x, y, sorted)\<close>. The result is the array \<^verbatim>\<open>[amp, mu, sigma]\<close>. There is no
  test on the sign of \<open>B\<close> and no test on the rank of \<open>a1\<close> in the source.
\<close>

definition gauss_fit :: "real list \<Rightarrow> real list \<Rightarrow> bool \<Rightarrow> error + (npfloat \<times> npfloat \<times> npfloat)" where
  "gauss_fit x0 y0 is_sorted =
     (case preprocess x0 y0 is_sorted of
        Inl e \<Rightarrow> Inl e
      | Inr (x, y) \<Rightarrow>
          (case lstsq (design_matrix x y) (target y) of
             Inl e \<Rightarrow> Inl e
           | Inr (A, B) \<Rightarrow>
               let mu = np_div (Fin (- A)) (Fin B);
                   sigma = np_sqrt (np_div (Fin (- 1)) (Fin B));
                   a2 = trial_curve x mu sigma;
                   amp = np_div (np_dot (map Fin y) a2) (np_dot a2 a2)
               in Inr (amp, mu, sigma)))"

text \<open>\<^verbatim>\<open>model(x, a, mu, sigma) = a * exp(-0.5 * ((x - mu) / sigma)**2)\<close>, elementwise.\<close>

definition model :: "npfloat list \<Rightarrow> npfloat \<Rightarrow> npfloat \<Rightarrow> npfloat \<Rightarrow> npfloat list" where
  "model x a mu sigma =
     map (\<lambda>xi. np_mul a (np_exp (np_mul (Fin (- 0.5)) (np_square (np_div (np_sub xi mu) sigma))))) x"

section \<open>The quantities of the specification\<close>

text \<open>
  The half-step differences \<open>d\<^sub>i = 0.5 * (x\<^sub>i\<^sub>+\<^sub>1 - x\<^sub>i)\<close> and the cumulative trapezoidal
  integral of a sampled function \<open>v\<close>, by the recurrence of the specification:
  \<open>S[0] = 0\<close> and \<open>S[i] = S[i-1] + (v\<^sub>i + v\<^sub>i\<^sub>-\<^sub>1) * d\<^sub>i\<^sub>-\<^sub>1\<close>.
\<close>

definition half_step :: "real list \<Rightarrow> nat \<Rightarrow> real" where
  "half_step x i = 0.5 * (x ! (i + 1) - x ! i)"

fun trapezoid_spec :: "real list \<Rightarrow> real list \<Rightarrow> nat \<Rightarrow> real" where
  "trapezoid_spec x v 0 = 0"
| "trapezoid_spec x v (Suc i) = trapezoid_spec x v i + (v ! Suc i + v ! i) * half_step x i"

text \<open>The coefficients \<open>(A, B)\<close> of the linear system of a sample set.\<close>

definition coeffs :: "real list \<Rightarrow> real list \<Rightarrow> real \<times> real" where
  "coeffs x y = solve_rows (zip (design_matrix x y) (target y))"

text \<open>The trial curve \<open>g\<^sub>i = exp (-0.5 ((x\<^sub>i - \<mu>) / \<sigma>)\<^sup>2)\<close> and the dot product, over the reals.\<close>

definition gauss_curve :: "real list \<Rightarrow> real \<Rightarrow> real \<Rightarrow> real list" where
  "gauss_curve x mu sigma = map (\<lambda>xi. exp (- 0.5 * ((xi - mu) / sigma)\<^sup>2)) x"





section \<open>The fitter on a heap of arrays\<close>

text \<open>
  The source works on numpy arrays, which are mutable objects passed by reference, and
  it asks the solver to reuse its operands (\<^verbatim>\<open>overwrite_a=True, overwrite_b=True\<close>). To
  state what a call does to the caller's arrays, the fitter is given a second time over
  an explicit heap: a list of arrays, an address being an index. Every array expression
  of the source (\<^verbatim>\<open>0.5 * diff(x)\<close>, \<^verbatim>\<open>x * y\<close>, \<^verbatim>\<open>empty(...)\<close>, \<^verbatim>\<open>y - y[0]\<close>, \<^verbatim>\<open>exp(...)\<close>,
  \<^verbatim>\<open>array([...])\<close>) allocates a new array; the three slice assignments write into \<open>a1\<close>
  in place; the solver replaces the contents of both operands. Each read goes to the
  heap as it is at that point of the run.
\<close>

datatype array = Vec "real list" | Mat "(real \<times> real) list" | FVec "npfloat list"

type_synonym heap = "array list"

text \<open>
  What is not determined by the source: the initial contents of the array returned by
  \<^verbatim>\<open>empty\<close>, and what the solver leaves in its two operands.
\<close>

record junk =
  empty_entry :: "nat \<Rightarrow> real \<times> real"
  lapack_a :: "(real \<times> real) list \<Rightarrow> real list \<Rightarrow> (real \<times> real) list"
  lapack_b :: "(real \<times> real) list \<Rightarrow> real list \<Rightarrow> real list"

definition alloc :: "heap \<Rightarrow> array \<Rightarrow> nat \<times> heap" where
  "alloc h a = (length h, h @ [a])"

definition vec_at :: "heap \<Rightarrow> nat \<Rightarrow> real list" where
  "vec_at h p = (if p < length h then (case h ! p of Vec v \<Rightarrow> v | _ \<Rightarrow> []) else [])"

definition mat_at :: "heap \<Rightarrow> nat \<Rightarrow> (real \<times> real) list" where
  "mat_at h p = (if p < length h then (case h ! p of Mat m \<Rightarrow> m | _ \<Rightarrow> []) else [])"

definition fvec_at :: "heap \<Rightarrow> nat \<Rightarrow> npfloat list" where
  "fvec_at h p = (if p < length h then (case h ! p of FVec v \<Rightarrow> v | _ \<Rightarrow> []) else [])"

text \<open>
  Modelled from the spec: the preprocessor of \<^verbatim>\<open>skg/_util.py\<close> on the heap. The
  specification describes its results as value data with no shared mutable state: it
  does not write to its arguments. With \<^verbatim>\<open>sorted=True\<close> it hands back the arrays it was
  given (no copy, the least favourable case for the caller); otherwise the sorted data
  are two new arrays.
\<close>

definition preprocess_heap :: "heap \<Rightarrow> nat \<Rightarrow> nat \<Rightarrow> bool \<Rightarrow> (error + nat \<times> nat) \<times> heap" where
  "preprocess_heap h px py is_sorted =
     (let x = vec_at h px; y = vec_at h py in
      if length x \<noteq> length y \<or> length x < 2 then (Inl ShapeMismatchError, h)
      else if is_sorted then (Inr (px, py), h)
      else let ps = sort_key fst (zip x y);
               (qx, h1) = alloc h (Vec (map fst ps));
               (qy, h2) = alloc h1 (Vec (map snd ps))
           in (Inr (qx, qy), h2))"

text \<open>
  The slice assignments \<^verbatim>\<open>a1[0, :] = 0\<close>, \<^verbatim>\<open>a1[1:, 0] = c\<close> and \<^verbatim>\<open>a1[1:, 1] = c\<close>, on the
  rows of the matrix and in place on the heap.
\<close>

definition set_row0 :: "(real \<times> real) list \<Rightarrow> (real \<times> real) list" where
  "set_row0 m = m[0 := (0, 0)]"

definition set_col0 :: "(real \<times> real) list \<Rightarrow> real list \<Rightarrow> (real \<times> real) list" where
  "set_col0 m c = take 1 m @ map2 (\<lambda>r v. (v, snd r)) (drop 1 m) c"

definition set_col1 :: "(real \<times> real) list \<Rightarrow> real list \<Rightarrow> (real \<times> real) list" where
  "set_col1 m c = take 1 m @ map2 (\<lambda>r v. (fst r, v)) (drop 1 m) c"

definition write_row0 :: "heap \<Rightarrow> nat \<Rightarrow> heap" where
  "write_row0 h p = h[p := Mat (set_row0 (mat_at h p))]"

definition write_col0 :: "heap \<Rightarrow> nat \<Rightarrow> real list \<Rightarrow> heap" where
  "write_col0 h p c = h[p := Mat (set_col0 (mat_at h p) c)]"

definition write_col1 :: "heap \<Rightarrow> nat \<Rightarrow> real list \<Rightarrow> heap" where
  "write_col1 h p c = h[p := Mat (set_col1 (mat_at h p) c)]"

text \<open>
  \<^verbatim>\<open>lstsq(a1, b1, overwrite_a=True, overwrite_b=True)\<close>: the solution as before; on
  return the two operands hold whatever the solver left there.
\<close>

definition lstsq_heap :: "junk \<Rightarrow> heap \<Rightarrow> nat \<Rightarrow> nat \<Rightarrow> (error + real \<times> real) \<times> heap" where
  "lstsq_heap jk h pa pb =
     (let a = mat_at h pa; b = vec_at h pb in
      case lstsq a b of
        Inl e \<Rightarrow> (Inl e, h)
      | Inr z \<Rightarrow> (Inr z, h[pa := Mat (lapack_a jk a b), pb := Vec (lapack_b jk a b)]))"

text \<open>Lines 105 to 126 of the source, after the preprocessor: the result is the address of \<open>out\<close>.\<close>

definition fit_arrays :: "junk \<Rightarrow> heap \<Rightarrow> nat \<Rightarrow> nat \<Rightarrow> (error + nat) \<times> heap" where
  "fit_arrays jk h1 px py =
     (let (pd, h2) = alloc h1 (Vec (map (\<lambda>h. 0.5 * h) (diff (vec_at h1 px))));
          (pxy, h3) = alloc h2 (Vec (map2 (\<lambda>p q. p * q) (vec_at h2 px) (vec_at h2 py)));
          (pa1, h4) = alloc h3 (Mat (map (empty_entry jk) [0..<length (vec_at h3 pxy)]));
          h5 = write_row0 h4 pa1;
          h6 = write_col0 h5 pa1 (cumsum (integrand_steps (vec_at h5 py) (vec_at h5 pd)));
          h7 = write_col1 h6 pa1 (cumsum (integrand_steps (vec_at h6 pxy) (vec_at h6 pd)));
          (pb1, h8) = alloc h7 (Vec (target (vec_at h7 py)))
      in (case lstsq_heap jk h8 pa1 pb1 of
            (Inl e, h9) \<Rightarrow> (Inl e, h9)
          | (Inr (A, B), h9) \<Rightarrow>
              let mu = np_div (Fin (- A)) (Fin B);
                  sigma = np_sqrt (np_div (Fin (- 1)) (Fin B));
                  (pa2, h10) = alloc h9 (FVec (trial_curve (vec_at h9 px) mu sigma));
                  amp = np_div (np_dot (map Fin (vec_at h10 py)) (fvec_at h10 pa2))
                               (np_dot (fvec_at h10 pa2) (fvec_at h10 pa2));
                  (pout, h11) = alloc h10 (FVec [amp, mu, sigma])
              in (Inr pout, h11)))"

definition gauss_fit_heap :: "junk \<Rightarrow> heap \<Rightarrow> nat \<Rightarrow> nat \<Rightarrow> bool \<Rightarrow> (error + nat) \<times> heap" where
  "gauss_fit_heap jk h0 px0 py0 is_sorted =
     (case preprocess_heap h0 px0 py0 is_sorted of
        (Inl e, h1) \<Rightarrow> (Inl e, h1)
      | (Inr (px, py), h1) \<Rightarrow> fit_arrays jk h1 px py)"

text \<open>The triple held by the array that a call returned.\<close>

definition out_value :: "(error + nat) \<times> heap \<Rightarrow> error + (npfloat \<times> npfloat \<times> npfloat)" where
  "out_value r =
     (case fst r of
        Inl e \<Rightarrow> Inl e
      | Inr p \<Rightarrow> (case fvec_at (snd r) p of
                    [a, m, s] \<Rightarrow> Inr (a, m, s)
                  | _ \<Rightarrow> Inl ValueError))"

section \<open>The solver returns a least-squares solution\<close>

















section \<open>The columns of the design matrix\<close>

lemma length_diff [simp]: "length (diff xs) = length xs - 1"
  by (simp add: diff_def)

lemma nth_diff: "Suc i < length xs \<Longrightarrow> diff xs ! i = xs ! Suc i - xs ! i"
  by (simp add: diff_def nth_tl nth_butlast)

lemma length_cumsum_from [simp]: "length (cumsum_from acc vs) = length vs"
  by (induction vs arbitrary: acc) simp_all

lemma length_cumsum [simp]: "length (cumsum vs) = length vs"
  by (simp add: cumsum_def)

lemma nth_cumsum_from:
  "i < length vs \<Longrightarrow> cumsum_from acc vs ! i = acc + sum_list (take (Suc i) vs)"
proof (induction vs arbitrary: acc i)
  case Nil
  then show ?case by simp
next
  case (Cons v vs)
  show ?case
  proof (cases i)
    case 0
    then show ?thesis by simp
  next
    case (Suc j)
    then have "j < length vs" using Cons.prems by simp
    then show ?thesis using Suc Cons.IH [of j "acc + v"] by simp
  qed
qed

lemma nth_zero_cumsum:
  "i \<le> length vs \<Longrightarrow> (0 # cumsum vs) ! i = sum_list (take i vs)"
  by (cases i) (simp_all add: cumsum_def nth_cumsum_from)

lemma length_integrand_steps [simp]:
  "length (integrand_steps v d) = min (length v - 1) (length d)"
  by (simp add: integrand_steps_def)

lemma nth_integrand_steps:
  "Suc i < length v \<Longrightarrow> i < length d \<Longrightarrow>
     integrand_steps v d ! i = (v ! Suc i + v ! i) * d ! i"
  by (simp add: integrand_steps_def nth_tl nth_butlast)

lemma nth_steps_half:
  assumes "length v = length x" and "Suc i < length x"
  shows "integrand_steps v (map (\<lambda>h. 0.5 * h) (diff x)) ! i = (v ! Suc i + v ! i) * half_step x i"
  using assms by (simp add: nth_integrand_steps nth_diff half_step_def)

lemma trapezoid_spec_sum:
  assumes "length v = length x" and "i < length x"
  shows "trapezoid_spec x v i = sum_list (take i (integrand_steps v (map (\<lambda>h. 0.5 * h) (diff x))))"
  using assms(2)
proof (induction i)
  case 0
  then show ?case by simp
next
  case (Suc i)
  let ?st = "integrand_steps v (map (\<lambda>h. 0.5 * h) (diff x))"
  have len: "i < length ?st" using Suc.prems assms(1) by simp
  have "sum_list (take (Suc i) ?st) = sum_list (take i ?st) + ?st ! i"
    using len by (simp add: take_Suc_conv_app_nth)
  then show ?case
    using Suc nth_steps_half [OF assms(1), of i] by simp
qed

lemma length_design_matrix:
  "length x = length y \<Longrightarrow> 0 < length x \<Longrightarrow> length (design_matrix x y) = length x"
  by (cases x) (simp_all add: design_matrix_def Let_def)

lemma design_matrix_fst:
  assumes "length x = length y" and "i < length x"
  shows "fst (design_matrix x y ! i) = trapezoid_spec x y i"
proof -
  let ?d = "map (\<lambda>h. 0.5 * h) (diff x)"
  let ?xy = "map2 (\<lambda>p q. p * q) x y"
  have l1: "length (integrand_steps y ?d) = length x - 1"
   and l2: "length (integrand_steps ?xy ?d) = length x - 1"
    using assms(1) by simp_all
  have "map fst (design_matrix x y) = 0 # cumsum (integrand_steps y ?d)"
    using l1 l2 by (simp add: design_matrix_def Let_def)
  then have "fst (design_matrix x y ! i) = (0 # cumsum (integrand_steps y ?d)) ! i"
    using assms length_design_matrix [OF assms(1)] by (metis nth_map gr_implies_not0 neq0_conv)
  also have "\<dots> = sum_list (take i (integrand_steps y ?d))"
    using assms(2) l1 by (intro nth_zero_cumsum) simp
  also have "\<dots> = trapezoid_spec x y i"
    using assms by (simp add: trapezoid_spec_sum)
  finally show ?thesis .
qed

lemma design_matrix_snd:
  assumes "length x = length y" and "i < length x"
  shows "snd (design_matrix x y ! i) = trapezoid_spec x (map2 (\<lambda>p q. p * q) x y) i"
proof -
  let ?d = "map (\<lambda>h. 0.5 * h) (diff x)"
  let ?xy = "map2 (\<lambda>p q. p * q) x y"
  have l1: "length (integrand_steps y ?d) = length x - 1"
   and l2: "length (integrand_steps ?xy ?d) = length x - 1"
    using assms(1) by simp_all
  have "map snd (design_matrix x y) = 0 # cumsum (integrand_steps ?xy ?d)"
    using l1 l2 by (simp add: design_matrix_def Let_def)
  then have "snd (design_matrix x y ! i) = (0 # cumsum (integrand_steps ?xy ?d)) ! i"
    using assms length_design_matrix [OF assms(1)] by (metis nth_map gr_implies_not0 neq0_conv)
  also have "\<dots> = sum_list (take i (integrand_steps ?xy ?d))"
    using assms(2) l2 by (intro nth_zero_cumsum) simp
  also have "\<dots> = trapezoid_spec x ?xy i"
    using assms by (simp add: trapezoid_spec_sum)
  finally show ?thesis .
qed

section \<open>The result of the fitter in closed form\<close>

lemma preprocess_lengths:
  assumes "preprocess x0 y0 s = Inr (x, y)"
  shows "length x = length y" and "2 \<le> length x" and "length x = length x0"
  using assms by (auto simp: preprocess_def Let_def split: if_splits)


lemma length_target [simp]: "length (target y) = length y"
  by (simp add: target_def)

lemma lstsq_design:
  assumes "length x = length y" and "2 \<le> length x"
  shows "lstsq (design_matrix x y) (target y) = Inr (coeffs x y)"
proof -
  have "length (design_matrix x y) = length x"
    using assms(2) by (intro length_design_matrix [OF assms(1)]) auto
  then show ?thesis using assms(1) by (simp add: lstsq_def coeffs_def)
qed

lemma gauss_fit_unfold:
  assumes "preprocess x0 y0 s = Inr (x, y)" and "coeffs x y = (A, B)"
  shows "gauss_fit x0 y0 s =
           Inr (np_div (np_dot (map Fin y)
                          (trial_curve x (np_div (Fin (- A)) (Fin B)) (np_sqrt (np_div (Fin (- 1)) (Fin B)))))
                       (np_dot (trial_curve x (np_div (Fin (- A)) (Fin B)) (np_sqrt (np_div (Fin (- 1)) (Fin B))))
                          (trial_curve x (np_div (Fin (- A)) (Fin B)) (np_sqrt (np_div (Fin (- 1)) (Fin B))))),
                np_div (Fin (- A)) (Fin B),
                np_sqrt (np_div (Fin (- 1)) (Fin B)))"
  using assms lstsq_design [OF preprocess_lengths(1,2) [OF assms(1)]]
  by (simp add: gauss_fit_def Let_def)



lemma length_gauss_curve [simp]: "length (gauss_curve x mu sigma) = length x"
  by (simp add: gauss_curve_def)




lemma np_right_NaN [simp]:
  "np_div a NaN = NaN" "np_mul a NaN = NaN" "np_add a NaN = NaN"
  by (cases a; simp)+


lemma gauss_fit_nan:
  assumes "preprocess x0 y0 s = Inr (x, y)" and "coeffs x y = (A, B)" and "0 \<le> B"
  shows "gauss_fit x0 y0 s = Inr (NaN, np_div (Fin (- A)) (Fin B), NaN)"
proof -
  have "- 1 / B \<le> 0" using assms(3) by (simp add: divide_le_0_iff)
  then have sg: "np_sqrt (np_div (Fin (- 1)) (Fin B)) = NaN"
    by (cases "B = 0") auto
  have len: "length x = length y" "2 \<le> length x"
    using preprocess_lengths [OF assms(1)] by simp_all
  have tc: "trial_curve x mu NaN = replicate (length x) NaN" for mu
    by (simp add: trial_curve_def np_square_def map_replicate_const)
  have dn: "np_dot us (replicate n NaN) = (if us = [] \<or> n = 0 then Fin 0 else NaN)" for us n
    by (cases us; cases n) simp_all
  have "x \<noteq> []" "y \<noteq> []" using len by auto
  then show ?thesis
    unfolding gauss_fit_unfold [OF assms(1,2)] sg tc by (simp add: dn)
qed

lemma lstsq_coeffs:
  assumes "preprocess x0 y0 s = Inr (x, y)" and "lstsq (design_matrix x y) (target y) = Inr (A, B)"
  shows "coeffs x y = (A, B)"
  using assms(2) lstsq_design [OF preprocess_lengths(1,2) [OF assms(1)]] by simp

lemmas eval_defs = design_matrix_def target_def diff_def integrand_steps_def cumsum_def
  lstsq_def solve_rows_def gram_uu_def gram_uv_def gram_vv_def rhs_u_def rhs_v_def Let_def
  preprocess_def



section \<open>The cumulative trapezoidal integrals\<close>

text \<open>
  Claim C3. For every input \<open>(x, y)\<close> of length \<open>N \<ge> 2\<close>, the two columns of the design
  matrix built by \<open>gauss_fit\<close> are the cumulative trapezoidal integrals given by the
  recurrences \<open>S_y[0] = 0\<close>, \<open>S_y[i] = S_y[i-1] + (y\<^sub>i + y\<^sub>i\<^sub>-\<^sub>1) * d\<^sub>i\<^sub>-\<^sub>1\<close> and
  \<open>S_xy[0] = 0\<close>, \<open>S_xy[i] = S_xy[i-1] + (xy\<^sub>i + xy\<^sub>i\<^sub>-\<^sub>1) * d\<^sub>i\<^sub>-\<^sub>1\<close>, where
  \<open>d\<^sub>i = 0.5 * (x\<^sub>i\<^sub>+\<^sub>1 - x\<^sub>i)\<close> and \<open>xy\<^sub>i = x\<^sub>i * y\<^sub>i\<close>: the vectorised construction of the
  source (\<open>diff\<close>, shifted slices, \<open>cumsum\<close>) computes, entry by entry, the recurrence
  \<open>trapezoid_spec\<close>.
\<close>

theorem design_matrix_columns:
  assumes "length x = length y" and "2 \<le> length x"
  shows "map fst (design_matrix x y) = map (trapezoid_spec x y) [0..<length x]
       \<and> map snd (design_matrix x y) = map (trapezoid_spec x (map2 (\<lambda>p q. p * q) x y)) [0..<length x]"
proof -
  have len: "length (design_matrix x y) = length x"
    using assms(2) by (intro length_design_matrix [OF assms(1)]) auto
  have "map fst (design_matrix x y) = map (trapezoid_spec x y) [0..<length x]"
    by (rule nth_equalityI) (simp_all add: len design_matrix_fst [OF assms(1)])
  moreover have "map snd (design_matrix x y)
                   = map (trapezoid_spec x (map2 (\<lambda>p q. p * q) x y)) [0..<length x]"
    by (rule nth_equalityI) (simp_all add: len design_matrix_snd [OF assms(1)])
  ultimately show ?thesis by simp
qed

theorem design_matrix_columns_witness:
  "length [0, 1, 2 :: real] = length [1, 2, 5 :: real] \<and> 2 \<le> length [0, 1, 2 :: real]
   \<and> map fst (design_matrix [0, 1, 2] [1, 2, 5]) = [0, 3 / 2, 5]
   \<and> map snd (design_matrix [0, 1, 2] [1, 2, 5]) = [0, 1, 7]"
  using design_matrix_columns [of "[0, 1, 2]" "[1, 2, 5]"]
  by (simp add: upt_rec half_step_def eval_nat_numeral)

section \<open>The linear system and the recovered parameters\<close>



section \<open>A non-negative curvature coefficient\<close>

lemma ex2_pre: "preprocess [0, 1, 2] [1, 2, 5] True = Inr ([0, 1, 2], [1, 2, 5])"
  by (simp add: preprocess_def)

lemma ex2_lstsq:
  "lstsq (design_matrix [0, 1, 2] [1, 2, 5]) (target [1, 2, 5]) = Inr (6 / 11, 2 / 11)"
  by (simp add: eval_defs)

lemma ex3_pre: "preprocess [0, 1, 2] [3, 1, 3] True = Inr ([0, 1, 2], [3, 1, 3])"
  by (simp add: preprocess_def)

lemma ex3_lstsq:
  "lstsq (design_matrix [0, 1, 2] [3, 1, 3]) (target [3, 1, 3]) = Inr (- (4 / 3), 4 / 3)"
  by (simp add: eval_defs)

text \<open>
  Claim C1, as amended. The source has no test on the sign of \<open>B\<close>. For every input that
  passes the preprocessor and for which the least-squares solve yields \<open>B \<ge> 0\<close>,
  \<open>gauss_fit\<close> raises nothing and returns the triple \<open>(NaN, -A / B, NaN)\<close>: the
  standard deviation is NaN (never a complex number), and so is the amplitude computed
  from it. For \<open>B = 0\<close> the middle entry is itself an infinity or NaN. (The embedding
  has one zero. Where the solver returns the negative zero of IEEE arithmetic for \<open>B\<close>,
  numpy's \<open>sigma\<close> is \<open>+inf\<close> instead; the amplitude is NaN all the same.)
\<close>

theorem gauss_fit_nonneg_curvature:
  assumes "preprocess x0 y0 s = Inr (x, y)"
      and "lstsq (design_matrix x y) (target y) = Inr (A, B)"
      and "0 \<le> B"
  shows "gauss_fit x0 y0 s = Inr (NaN, np_div (Fin (- A)) (Fin B), NaN)"
  using gauss_fit_nan [OF assms(1) lstsq_coeffs [OF assms(1,2)] assms(3)] .

theorem gauss_fit_nonneg_curvature_witness:
  "preprocess [0, 1, 2] [3, 1, 3] True = Inr ([0, 1, 2], [3, 1, 3])
   \<and> lstsq (design_matrix [0, 1, 2] [3, 1, 3]) (target [3, 1, 3]) = Inr (- (4 / 3), 4 / 3)
   \<and> (0::real) \<le> 4 / 3
   \<and> gauss_fit [0, 1, 2] [3, 1, 3] True = Inr (NaN, Fin 1, NaN)"
  using gauss_fit_nonneg_curvature [OF ex3_pre ex3_lstsq] ex3_pre ex3_lstsq by simp

text \<open>
  The claim as stated (a non-negative \<open>B\<close> is detected and reported as a failure) fails
  for \<open>x = [0, 1, 2]\<close>, \<open>y = [1, 2, 5]\<close>: the solve gives \<open>B = 2/11\<close>, and the call
  returns a value, with NaN for the amplitude and the standard deviation.
\<close>

theorem gauss_fit_positive_B_counterexample:
  "lstsq (design_matrix [0, 1, 2] [1, 2, 5]) (target [1, 2, 5]) = Inr (6 / 11, 2 / 11)
   \<and> gauss_fit [0, 1, 2] [1, 2, 5] True = Inr (NaN, Fin (- 3), NaN)"
  using gauss_fit_nan [OF ex2_pre lstsq_coeffs [OF ex2_pre ex2_lstsq]] ex2_lstsq by simp

section \<open>Degenerate inputs\<close>

lemma rhs_zero:
  assumes "\<forall>r\<in>set rows. snd r = 0"
  shows "rhs_u rows = 0" and "rhs_v rows = 0"
proof -
  have "(\<Sum>r\<leftarrow>rows. fst (fst r) * snd r) = (\<Sum>r\<leftarrow>rows. 0)"
    using assms by (intro arg_cong [where f = sum_list] map_cong) auto
  then show "rhs_u rows = 0" by (simp add: rhs_u_def)
  have "(\<Sum>r\<leftarrow>rows. snd (fst r) * snd r) = (\<Sum>r\<leftarrow>rows. 0)"
    using assms by (intro arg_cong [where f = sum_list] map_cong) auto
  then show "rhs_v rows = 0" by (simp add: rhs_v_def)
qed

lemma solve_rows_zero_rhs:
  assumes "\<forall>r\<in>set rows. snd r = 0"
  shows "solve_rows rows = (0, 0)"
  using rhs_zero [OF assms] by (simp add: solve_rows_def Let_def)

lemma target_constant:
  assumes "\<forall>v\<in>set y. v = c"
  shows "\<forall>t\<in>set (target y). t = 0"
proof (cases y)
  case Nil
  then show ?thesis by (simp add: target_def)
next
  case (Cons v vs)
  then have "hd y = c" using assms by simp
  then show ?thesis using assms by (auto simp: target_def)
qed

lemma coeffs_constant:
  assumes "\<forall>v\<in>set y. v = c"
  shows "coeffs x y = (0, 0)"
  unfolding coeffs_def
proof (rule solve_rows_zero_rhs, rule ballI)
  fix r assume "r \<in> set (zip (design_matrix x y) (target y))"
  then have "snd r \<in> set (target y)"
    by (metis prod.collapse set_zip_rightD)
  then show "snd r = 0" using target_constant [OF assms] by blast
qed


lemma ex4_pre: "preprocess [0, 1, 2] [7, 7, 7] True = Inr ([0, 1, 2], [7, 7, 7])"
  by (simp add: preprocess_def)






section \<open>The amplitude\<close>




lemma model_finite:
  "sigma \<noteq> 0 \<Longrightarrow> model (map Fin x) (Fin a) (Fin mu) (Fin sigma)
      = map (\<lambda>xi. Fin (a * exp (- 0.5 * ((xi - mu) / sigma)\<^sup>2))) x"
  by (simp add: model_def np_sub_def np_square_def power2_eq_square)



section \<open>The model evaluator\<close>

text \<open>
  Claim C7. For every array \<open>x\<close> and scalars \<open>a\<close>, \<open>mu\<close>, \<open>sigma\<close>, \<open>model\<close> returns an
  array of the length of \<open>x\<close> whose i-th element is
  \<open>a * exp (-0.5 * ((x\<^sub>i - mu) / sigma)\<^sup>2)\<close>, evaluated as numpy does; it has no state
  and no error branch. For finite inputs with \<open>sigma \<noteq> 0\<close> every element is the real
  number given by that formula.
\<close>

theorem model_pointwise:
  "length (model x a mu sigma) = length x
   \<and> (\<forall>i<length x. model x a mu sigma ! i =
          np_mul a (np_exp (np_mul (Fin (- 0.5)) (np_square (np_div (np_sub (x ! i) mu) sigma)))))
   \<and> (s \<noteq> 0 \<longrightarrow> model (map Fin xs) (Fin a') (Fin m) (Fin s)
                     = map (\<lambda>xi. Fin (a' * exp (- 0.5 * ((xi - m) / s)\<^sup>2))) xs)"
  using model_finite [of s xs a' m] by (simp add: model_def)

theorem model_pointwise_witness:
  "(1::real) \<noteq> 0
   \<and> model (map Fin [0, 1]) (Fin 2) (Fin 0) (Fin 1) = [Fin 2, Fin (2 * exp (- (1 / 2)))]
   \<and> length (model [Fin 0, Fin 1] (Fin 2) (Fin 0) (Fin 0)) = 2"
  using model_pointwise [of "[Fin 0, Fin 1]" "Fin 2" "Fin 0" "Fin 0" 1 "[0, 1]" 2 0] by simp

text \<open>
  With \<open>sigma = 0\<close> the call still returns: the quotient is an infinity or NaN, and the
  element is \<open>0\<close> or NaN.
\<close>

lemma model_zero_sigma: "model [Fin 0, Fin 1] (Fin 2) (Fin 0) (Fin 0) = [NaN, Fin 0]"
  by (simp add: model_def np_sub_def np_square_def)

section \<open>Scaling the y-values\<close>



















section \<open>Reversing the order of the data\<close>




























section \<open>No effect on the caller's arrays\<close>

lemma alloc_simp: "alloc h a = (length h, h @ [a])"
  by (simp add: alloc_def)

lemma vec_at_old: "p < length h \<Longrightarrow> vec_at (h @ as) p = vec_at h p"
  by (simp add: vec_at_def nth_append)

lemma vec_at_new: "length h \<le> p \<Longrightarrow> vec_at (h @ as) p = vec_at as (p - length h)"
  by (auto simp: vec_at_def nth_append)

lemma vec_at_Cons:
  "vec_at (a # as) 0 = (case a of Vec v \<Rightarrow> v | _ \<Rightarrow> [])"
  "0 < k \<Longrightarrow> vec_at (a # as) k = vec_at as (k - 1)"
  by (cases k; simp add: vec_at_def)+

lemma mat_at_new: "length h \<le> p \<Longrightarrow> mat_at (h @ as) p = mat_at as (p - length h)"
  by (auto simp: mat_at_def nth_append)

lemma mat_at_Cons:
  "mat_at (a # as) 0 = (case a of Mat m \<Rightarrow> m | _ \<Rightarrow> [])"
  "0 < k \<Longrightarrow> mat_at (a # as) k = mat_at as (k - 1)"
  by (cases k; simp add: mat_at_def)+

lemma fvec_at_new: "length h \<le> p \<Longrightarrow> fvec_at (h @ as) p = fvec_at as (p - length h)"
  by (auto simp: fvec_at_def nth_append)

lemma fvec_at_Cons:
  "fvec_at (a # as) 0 = (case a of FVec v \<Rightarrow> v | _ \<Rightarrow> [])"
  "0 < k \<Longrightarrow> fvec_at (a # as) k = fvec_at as (k - 1)"
  by (cases k; simp add: fvec_at_def)+

lemmas heap_simps = alloc_simp vec_at_old vec_at_new vec_at_Cons mat_at_new mat_at_Cons
  fvec_at_new fvec_at_Cons list_update_append

lemma filled_matrix:
  assumes "length rows = Suc n" and "length c0 = n" and "length c1 = n"
  shows "set_col1 (set_col0 (set_row0 rows) c0) c1 = (0, 0) # zip c0 c1"
proof -
  obtain r rs where rows: "rows = r # rs" and rs: "length rs = n"
    using assms(1) by (cases rows) auto
  have "map2 (\<lambda>r v. (fst r, v)) (map2 (\<lambda>r v. (v, snd r)) rs c0) c1 = zip c0 c1"
    using rs assms(2,3)
    by (intro nth_equalityI) simp_all
  then show ?thesis by (simp add: rows set_row0_def set_col0_def set_col1_def)
qed

lemma preprocess_heap_result:
  assumes "px < length h" and "py < length h" and "h ! px = Vec x" and "h ! py = Vec y"
  shows "(\<exists>e. preprocess_heap h px py s = (Inl e, h) \<and> preprocess x y s = Inl e)
       \<or> (\<exists>qx qy h1 x1 y1. preprocess_heap h px py s = (Inr (qx, qy), h1)
              \<and> preprocess x y s = Inr (x1, y1)
              \<and> qx < length h1 \<and> qy < length h1
              \<and> vec_at h1 qx = x1 \<and> vec_at h1 qy = y1
              \<and> length h \<le> length h1 \<and> take (length h) h1 = h)"
proof -
  have vx: "vec_at h px = x" and vy: "vec_at h py = y"
    using assms by (simp_all add: vec_at_def)
  show ?thesis
  proof (cases "length x \<noteq> length y \<or> length x < 2")
    case True
    then show ?thesis by (auto simp: preprocess_heap_def preprocess_def vx vy)
  next
    case ok: False
    show ?thesis
    proof (cases s)
      case True
      then show ?thesis using ok assms(1,2)
        by (auto simp: preprocess_heap_def preprocess_def vx vy)
    next
      case False
      let ?ps = "sort_key fst (zip x y)"
      let ?h1 = "(h @ [Vec (map fst ?ps)]) @ [Vec (map snd ?ps)]"
      have a: "preprocess_heap h px py s = (Inr (length h, Suc (length h)), ?h1)"
        using ok False by (simp add: preprocess_heap_def vx vy Let_def alloc_simp)
      have b: "preprocess x y s = Inr (map fst ?ps, map snd ?ps)"
        using ok False by (simp add: preprocess_def Let_def)
      have c: "vec_at ?h1 (length h) = map fst ?ps"
        by (simp add: heap_simps)
      have d: "vec_at ?h1 (Suc (length h)) = map snd ?ps"
        by (simp add: heap_simps)
      have "length h < length ?h1" and "Suc (length h) < length ?h1"
        and "length h \<le> length ?h1" and "take (length h) ?h1 = h"
        by simp_all
      then show ?thesis using a b c d by blast
    qed
  qed
qed

lemma fit_body:
  assumes "qx < length h1" and "qy < length h1"
      and "vec_at h1 qx = x" and "vec_at h1 qy = y"
      and "length x = length y" and "2 \<le> length x"
      and "n \<le> length h1"
  shows "take n (snd (fit_arrays jk h1 qx qy)) = take n h1
       \<and> out_value (fit_arrays jk h1 qx qy) =
           (case lstsq (design_matrix x y) (target y) of
             Inl e \<Rightarrow> Inl e
           | Inr (A, B) \<Rightarrow>
               let mu = np_div (Fin (- A)) (Fin B);
                   sigma = np_sqrt (np_div (Fin (- 1)) (Fin B));
                   a2 = trial_curve x mu sigma;
                   amp = np_div (np_dot (map Fin y) a2) (np_dot a2 a2)
               in Inr (amp, mu, sigma))"
proof -
  define d where "d = map (\<lambda>h. 0.5 * h) (diff x)"
  let ?xy = "map2 (\<lambda>p q. p * q) x y"
  let ?c0 = "cumsum (integrand_steps y d)"
  let ?c1 = "cumsum (integrand_steps ?xy d)"
  obtain k where k: "length x = Suc k" using assms(6) by (cases x) auto
  have ld: "length d = k" using k by (simp add: d_def)
  have lc: "length ?c0 = k" "length ?c1 = k" using k ld assms(5) by simp_all
  have lj: "length (map (empty_entry jk) [0..<length ?xy]) = Suc k" using k assms(5) by simp
  have dm: "design_matrix x y = (0, 0) # zip ?c0 ?c1"
    by (simp add: design_matrix_def Let_def d_def)
  have fm: "set_col1 (set_col0 (set_row0 (map (empty_entry jk) [0..<length ?xy])) ?c0) ?c1
              = (0, 0) # zip ?c0 ?c1"
    by (rule filled_matrix [OF lj lc])
  obtain A B where AB: "coeffs x y = (A, B)" by (cases "coeffs x y") blast
  have co: "lstsq ((0, 0) # zip ?c0 ?c1) (target y) = Inr (A, B)"
    using lstsq_design [OF assms(5,6)] AB dm by simp
  have v: "vec_at h1 qx = x" "vec_at h1 qy = y" by (rule assms(3,4))+
  show ?thesis
    using assms(1,2,7) fm co
    unfolding fit_arrays_def dm v d_def [symmetric]
    by (simp add: v heap_simps write_row0_def write_col0_def write_col1_def lstsq_heap_def
        Let_def out_value_def del: np_div.simps np_sqrt.simps cong: let_weak_cong)
qed

lemma ex4_fit: "gauss_fit [0, 1, 2] [7, 7, 7] True = Inr (NaN, NaN, NaN)"
proof -
  have "coeffs [0, 1, 2] [7, 7, 7] = (0, 0)" by (rule coeffs_constant [of _ 7]) simp
  then show ?thesis using gauss_fit_nan [OF ex4_pre, of 0 0] by simp
qed

text \<open>
  Claim C9. \<open>gauss_fit\<close> is a pure function of its inputs. On a heap where \<open>px\<close> and
  \<open>py\<close> are the addresses of the caller's arrays \<open>x\<close> and \<open>y\<close> (the same array twice is
  allowed), a call leaves every array that existed before it unchanged, the caller's
  two among them: its in-place writes and the solver's overwriting reach only arrays
  allocated during the call. The triple it returns is \<open>gauss_fit x y s\<close>: it depends on
  the contents of \<open>x\<close> and \<open>y\<close> and on the flag, not on the rest of the heap, on the
  addresses, or on what uninitialised and overwritten memory holds.
\<close>

theorem gauss_fit_heap_pure:
  assumes "px < length h" and "py < length h" and "h ! px = Vec x" and "h ! py = Vec y"
  shows "take (length h) (snd (gauss_fit_heap jk h px py s)) = h
       \<and> out_value (gauss_fit_heap jk h px py s) = gauss_fit x y s"
proof -
  from preprocess_heap_result [OF assms, of s]
  show ?thesis
  proof (elim disjE exE conjE)
    fix e assume "preprocess_heap h px py s = (Inl e, h)" and "preprocess x y s = Inl e"
    then show ?thesis
      by (simp add: gauss_fit_heap_def gauss_fit_def out_value_def)
  next
    fix qx qy h1 x1 y1
    assume ph: "preprocess_heap h px py s = (Inr (qx, qy), h1)"
      and pp: "preprocess x y s = Inr (x1, y1)"
      and q: "qx < length h1" "qy < length h1" "vec_at h1 qx = x1" "vec_at h1 qy = y1"
      and le: "length h \<le> length h1" and tk: "take (length h) h1 = h"
    note len = preprocess_lengths(1,2) [OF pp]
    from fit_body [OF q len le, of jk]
    show ?thesis
      by (simp add: gauss_fit_heap_def gauss_fit_def ph pp tk)
  qed
qed

theorem gauss_fit_heap_pure_witness:
  "(0::nat) < length [Vec [0, 1, 2], Vec [7, 7, 7]] \<and> (1::nat) < length [Vec [0, 1, 2], Vec [7, 7, 7]]
   \<and> [Vec [0, 1, 2], Vec [7, 7, 7]] ! 0 = Vec [0, 1, 2]
   \<and> [Vec [0, 1, 2], Vec [7, 7, 7]] ! 1 = Vec [7, 7, 7]
   \<and> take 2 (snd (gauss_fit_heap \<lparr>empty_entry = (\<lambda>i. (1, 1)), lapack_a = (\<lambda>a b. []), lapack_b = (\<lambda>a b. [])\<rparr>
                    [Vec [0, 1, 2], Vec [7, 7, 7]] 0 1 True))
       = [Vec [0, 1, 2], Vec [7, 7, 7]]
   \<and> out_value (gauss_fit_heap \<lparr>empty_entry = (\<lambda>i. (1, 1)), lapack_a = (\<lambda>a b. []), lapack_b = (\<lambda>a b. [])\<rparr>
                    [Vec [0, 1, 2], Vec [7, 7, 7]] 0 1 True)
       = Inr (NaN, NaN, NaN)"
  using gauss_fit_heap_pure [of 0 "[Vec [0, 1, 2], Vec [7, 7, 7]]" 1 "[0, 1, 2]" "[7, 7, 7]"
      "\<lparr>empty_entry = (\<lambda>i. (1, 1)), lapack_a = (\<lambda>a b. []), lapack_b = (\<lambda>a b. [])\<rparr>" True]
    ex4_fit
  by (simp add: numeral_2_eq_2)

end
